theory Spec2Isabelle
  imports Main
begin

section \<open>Python values, dictionaries and exceptions\<close>

text \<open>
  The registry of \<^verbatim>\<open>src/index.py\<close> (class \<^verbatim>\<open>BotRegistry\<close>) keeps one Python
  dictionary per hosted workload inside the dictionary \<^verbatim>\<open>self._bots\<close>. Python
  dictionaries keep insertion order, assignment to an existing key keeps the key's
  position, and \<^verbatim>\<open>site_proxy\<close> iterates over \<^verbatim>\<open>_bots.values()\<close>, so a dictionary is
  an association list with distinct keys. Strings are byte lists (UTF-8).
\<close>

datatype pyval = PNone | PStr string | PInt int | PProc nat | PObj nat

fun truthy :: "pyval \<Rightarrow> bool" where
  "truthy PNone = False"
| "truthy (PStr s) = (s \<noteq> [])"
| "truthy (PInt i) = (i \<noteq> 0)"
| "truthy (PProc p) = True"
| "truthy (PObj p) = True"

type_synonym ('k, 'v) dict = "('k \<times> 'v) list"

fun dict_get :: "('k, 'v) dict \<Rightarrow> 'k \<Rightarrow> 'v option" where
  "dict_get [] k = None"
| "dict_get ((k', v) # d) k = (if k' = k then Some v else dict_get d k)"

fun dict_set :: "'k \<Rightarrow> 'v \<Rightarrow> ('k, 'v) dict \<Rightarrow> ('k, 'v) dict" where
  "dict_set k v [] = [(k, v)]"
| "dict_set k v ((k', v') # d) = (if k' = k then (k, v) # d else (k', v') # dict_set k v d)"

fun dict_del :: "'k \<Rightarrow> ('k, 'v) dict \<Rightarrow> ('k, 'v) dict" where
  "dict_del k [] = []"
| "dict_del k ((k', v') # d) = (if k' = k then dict_del k d else (k', v') # dict_del k d)"

definition dict_keys :: "('k, 'v) dict \<Rightarrow> 'k list" where
  "dict_keys d = map fst d"

definition dict_values :: "('k, 'v) dict \<Rightarrow> 'v list" where
  "dict_values d = map snd d"

text \<open>\<^verbatim>\<open>d.get(k)\<close> on a dictionary of Python values: \<^verbatim>\<open>None\<close> for a missing key.\<close>

definition get_py :: "(string, pyval) dict \<Rightarrow> string \<Rightarrow> pyval" where
  "get_py d k = (case dict_get d k of None \<Rightarrow> PNone | Some v \<Rightarrow> v)"

datatype exc =
    ProcessLookupError
  | TimeoutError
  | KeyError string
  | TypeError string
  | FileNotFoundError string
  | NameError string
  | OtherError string

text \<open>\<^verbatim>\<open>str(e)\<close>, as far as the messages are fixed by Python.\<close>

fun str_exc :: "exc \<Rightarrow> string" where
  "str_exc ProcessLookupError = []"
| "str_exc TimeoutError = []"
| "str_exc (KeyError k) = [CHR 0x27] @ k @ [CHR 0x27]"
| "str_exc (TypeError m) = m"
| "str_exc (FileNotFoundError p) =
     ''[Errno 2] No such file or directory: '' @ [CHR 0x27] @ p @ [CHR 0x27]"
| "str_exc (NameError n) = ''name '' @ [CHR 0x27] @ n @ [CHR 0x27] @ '' is not defined''"
| "str_exc (OtherError m) = m"

definition digit :: "nat \<Rightarrow> char" where
  "digit d =
     (if d = 0 then CHR ''0'' else if d = 1 then CHR ''1'' else if d = 2 then CHR ''2''
      else if d = 3 then CHR ''3'' else if d = 4 then CHR ''4'' else if d = 5 then CHR ''5''
      else if d = 6 then CHR ''6'' else if d = 7 then CHR ''7'' else if d = 8 then CHR ''8''
      else CHR ''9'')"

fun str_nat :: "nat \<Rightarrow> string" where
  "str_nat n = (if n < 10 then [digit n] else str_nat (n div 10) @ [digit (n mod 10)])"

declare str_nat.simps [simp del]

definition str_int :: "int \<Rightarrow> string" where
  "str_int i = (if i < 0 then ''-'' @ str_nat (nat (- i)) else str_nat (nat i))"

text \<open>\<^verbatim>\<open>str(v)\<close> for the values the registry stores.\<close>

fun str_py :: "pyval \<Rightarrow> string" where
  "str_py PNone = ''None''"
| "str_py (PStr s) = s"
| "str_py (PInt i) = str_int i"
| "str_py (PProc p) = ''<Process '' @ str_nat p @ ''>''"
| "str_py (PObj p) = ''<object '' @ str_nat p @ ''>''"

definition endswith :: "string \<Rightarrow> string \<Rightarrow> bool" where
  "endswith s suf = (length suf \<le> length s \<and> drop (length s - length suf) s = suf)"

text \<open>\<^verbatim>\<open>os.path.join(a, b)\<close> (POSIX).\<close>

definition path_join :: "string \<Rightarrow> string \<Rightarrow> string" where
  "path_join a b =
     (case b of
        c # cs \<Rightarrow>
          if c = CHR ''/'' then b
          else if a = [] then b
          else if last a = CHR ''/'' then a @ b
          else a @ ''/'' @ b
      | [] \<Rightarrow> if a = [] then [] else if last a = CHR ''/'' then a else a @ ''/'')"

section \<open>Configuration, world state and effects\<close>

text \<open>
  What the code takes from outside the repository: \<^verbatim>\<open>hashlib.md5(..).hexdigest()\<close>,
  the process's working directory (for \<^verbatim>\<open>os.path.abspath\<close>) and \<^verbatim>\<open>sys.executable\<close>.
\<close>

record config =
  md5_hexdigest :: "string \<Rightarrow> string"
  getcwd :: string
  sys_executable :: string

definition DEFAULT_SERVICE_CODE :: string where
  \<open>DEFAULT_SERVICE_CODE =
     ''\<newline>'' @
     ''import os\<newline>'' @
     ''import asyncio\<newline>'' @
     ''import logging\<newline>'' @
     ''from aiogram import Bot, Dispatcher, F\<newline>'' @
     ''from aiogram.filters import CommandStart\<newline>'' @
     ''from aiogram.types import Message\<newline>'' @
     ''\<newline>'' @
     ''# Get token from environment\<newline>'' @
     ''TOKEN = os.getenv("BOT_TOKEN")\<newline>'' @
     ''if not TOKEN:\<newline>'' @
     ''    exit(1)\<newline>'' @
     ''\<newline>'' @
     ''bot = Bot(token=TOKEN)\<newline>'' @
     ''dp = Dispatcher()\<newline>'' @
     ''\<newline>'' @
     ''@dp.message(CommandStart())\<newline>'' @
     ''async def cmd_start(message: Message):\<newline>'' @
     ''    await message.answer("'' @ [CHR 0xF0, CHR 0x9F, CHR 0x91, CHR 0x8B] @ '' Welcome! This bot is hosted on the Application Platform.'' @ [CHR 0x5C] @ ''n'' @ [CHR 0x5C] @ ''nUpload your own code to change this message.")\<newline>'' @
     ''\<newline>'' @
     ''async def main():\<newline>'' @
     ''    logging.basicConfig(level=logging.INFO)\<newline>'' @
     ''    print("Bot is starting...")\<newline>'' @
     ''    await dp.start_polling(bot)\<newline>'' @
     ''\<newline>'' @
     ''if __name__ == "__main__":\<newline>'' @
     ''    asyncio.run(main())\<newline>''\<close>

text \<open>
  \<^verbatim>\<open>os.path.abspath(p)\<close> for a relative path: the join with the working directory.
  (\<^verbatim>\<open>normpath\<close> changes nothing on \<^verbatim>\<open>hosted_apps/app_\<close> followed by 32 hex digits.)
\<close>

definition abspath :: "config \<Rightarrow> string \<Rightarrow> string" where
  "abspath cfg p = path_join (getcwd cfg) p"

text \<open>
  The effects the code performs on its surroundings, recorded oldest first:
  calls to the bot API, directory creation, archive extraction, and the process operations
  (\<^verbatim>\<open>create_subprocess_exec\<close>, \<^verbatim>\<open>terminate\<close>, \<^verbatim>\<open>wait\<close>, \<^verbatim>\<open>kill\<close>).
  \<open>Spawn cmd dir tok port h\<close> is a child started with command \<open>cmd\<close> in directory
  \<open>dir\<close>, with \<^verbatim>\<open>BOT_TOKEN\<close> = \<open>tok\<close> and \<^verbatim>\<open>PORT\<close> = \<open>port\<close>, whose handle is \<open>h\<close>.
\<close>

datatype event =
    GetMe string
  | MakeDirs string
  | ExtractAll string string
  | Spawn "string list" string string "nat option" nat
  | Terminate nat
  | Wait nat
  | Kill nat
  | LogError string
  | CloseLogFile
  | IncrementStats string bool
  | FeedUpdate string

type_synonym info = "(string, pyval) dict"

record world =
  bots :: "(string, info) dict"
  files :: "string \<rightharpoonup> string"
  trace :: "event list"

definition init_world :: world where
  "init_world = \<lparr>bots = [], files = Map.empty, trace = []\<rparr>"

definition emit :: "event \<Rightarrow> world \<Rightarrow> world" where
  "emit e w = w\<lparr>trace := trace w @ [e]\<rparr>"

text \<open>
  Control flow inside a \<^verbatim>\<open>try\<close> body: an exception, an early \<^verbatim>\<open>return\<close>, or going on
  with a value. The state reached so far is kept in each case.
\<close>

datatype ('r, 'a) flow = Raise exc | Return 'r | Continue 'a

fun bind_flow ::
  "('r, 'a) flow \<times> world \<Rightarrow> ('a \<Rightarrow> world \<Rightarrow> ('r, 'b) flow \<times> world) \<Rightarrow> ('r, 'b) flow \<times> world"
where
  "bind_flow (Raise e, w) f = (Raise e, w)"
| "bind_flow (Return r, w) f = (Return r, w)"
| "bind_flow (Continue a, w) f = f a w"

section \<open>BotRegistry.register\<close>

text \<open>
  What one call of \<^verbatim>\<open>register\<close> meets outside: whether \<^verbatim>\<open>Bot(token=token)\<close> raises,
  what \<^verbatim>\<open>get_me\<close> answers (\<open>None\<close>: it raised or timed out), whether \<^verbatim>\<open>os.makedirs\<close>
  or writing the entry file raises, what \<^verbatim>\<open>os.listdir(target_dir)\<close> returns after the
  archive was extracted (or the exception of the extraction), and the handle of the
  spawned process (or the exception of the spawn).
\<close>

record reg_env =
  bot_init :: "exc option"
  get_me :: "string option"
  makedirs_exc :: "exc option"
  write_exc :: "exc option"
  extract_zip :: "exc + string list"
  spawn :: "exc + nat"

type_synonym outcome = "bool \<times> string"

text \<open>Lines 635-644: the username, or \<^verbatim>\<open>return False, "Invalid Token"\<close>.\<close>

definition validate :: "reg_env \<Rightarrow> string \<Rightarrow> bool \<Rightarrow> world \<Rightarrow> (outcome, string) flow \<times> world" where
  "validate env token is_site w =
     (if is_site then (Continue ''website'', w)
      else
        (case bot_init env of
           Some e \<Rightarrow> (Raise e, w)
         | None \<Rightarrow>
             (case get_me env of
                None \<Rightarrow> (Return (False, ''Invalid Token''), emit (GetMe token) w)
              | Some username \<Rightarrow> (Continue username, emit (GetMe token) w))))"

text \<open>Lines 647-650: the working directory of an identity.\<close>

definition target_dir :: "config \<Rightarrow> string \<Rightarrow> string" where
  "target_dir cfg token = abspath cfg (''hosted_apps/app_'' @ md5_hexdigest cfg token)"

definition prepare_path :: "config \<Rightarrow> reg_env \<Rightarrow> string \<Rightarrow> world \<Rightarrow> (outcome, string) flow \<times> world" where
  "prepare_path cfg env token w =
     (case makedirs_exc env of
        Some e \<Rightarrow> (Raise e, w)
      | None \<Rightarrow>
          (Continue (target_dir cfg token),
           emit (MakeDirs (target_dir cfg token)) (emit (MakeDirs ''hosted_apps'') w)))"

text \<open>Lines 668-671: the loop over \<^verbatim>\<open>os.listdir(target_dir)\<close>.\<close>

fun find_entry :: "string \<Rightarrow> string \<Rightarrow> string list \<Rightarrow> string option \<times> string" where
  "find_entry dir runtime [] = (None, runtime)"
| "find_entry dir runtime (f # fs) =
     (if f = ''main.py'' then (Some (path_join dir f), runtime)
      else if f = ''index.js'' then (Some (path_join dir f), ''node'')
      else if f = ''package.json'' then (Some dir, ''npm'')
      else find_entry dir runtime fs)"

text \<open>\<^verbatim>\<open>not s\<close> for an optional string: \<^verbatim>\<open>None\<close> and the empty string are both false.\<close>

fun falsy :: "string option \<Rightarrow> bool" where
  "falsy None = True"
| "falsy (Some s) = (s = [])"

text \<open>
  Lines 652-677: staging. The result is the entry point (\<open>None\<close> when none was found)
  and the runtime.
\<close>

definition stage ::
  "config \<Rightarrow> reg_env \<Rightarrow> string \<Rightarrow> string option \<Rightarrow> string option \<Rightarrow> world
    \<Rightarrow> (outcome, string option \<times> string) flow \<times> world"
where
  "stage cfg env dir code_content code_path w =
     (case (if falsy code_content \<and> falsy code_path then Some DEFAULT_SERVICE_CODE
            else code_content) of
        Some (c # cs) \<Rightarrow>
          (case write_exc env of
             Some e \<Rightarrow> (Raise e, w)
           | None \<Rightarrow>
               (Continue (Some (path_join dir ''main.py''), sys_executable cfg),
                w\<lparr>files := (files w)(path_join dir ''main.py'' \<mapsto> c # cs)\<rparr>))
      | _ \<Rightarrow>
          (case code_path of
             Some (p # ps) \<Rightarrow>
               if endswith (p # ps) ''.zip'' then
                 (case extract_zip env of
                    Inl e \<Rightarrow> (Raise e, w)
                  | Inr listing \<Rightarrow>
                      (Continue (find_entry dir (sys_executable cfg) listing),
                       emit (ExtractAll (p # ps) dir) w))
               else
                 (case files w (p # ps) of
                    None \<Rightarrow> (Raise (FileNotFoundError (p # ps)), w)
                  | Some content \<Rightarrow>
                      (Continue
                         (Some (path_join dir
                                  (if endswith (p # ps) ''.py'' then ''main.py'' else ''index.js'')),
                          if endswith (p # ps) ''.js'' then ''node'' else sys_executable cfg),
                       w\<lparr>files := (files w)
                            (path_join dir
                               (if endswith (p # ps) ''.py'' then ''main.py'' else ''index.js'')
                             \<mapsto> content)\<rparr>))
           | _ \<Rightarrow> (Continue (None, sys_executable cfg), w)))"

text \<open>Lines 686-700: the child process.\<close>

definition create_subprocess_exec ::
  "reg_env \<Rightarrow> string list \<Rightarrow> string \<Rightarrow> string \<Rightarrow> nat option \<Rightarrow> world \<Rightarrow> (outcome, nat) flow \<times> world"
where
  "create_subprocess_exec env cmd dir token port w =
     (case spawn env of
        Inl e \<Rightarrow> (Raise e, w)
      | Inr h \<Rightarrow> (Continue h, emit (Spawn cmd dir token port h) w))"

text \<open>Lines 722-726: the record stored for the identity.\<close>

definition mk_info :: "string \<Rightarrow> string \<Rightarrow> string \<Rightarrow> nat \<Rightarrow> nat option \<Rightarrow> bool \<Rightarrow> info" where
  "mk_info token name username h port is_site =
     [(''token'', PStr token), (''name'', PStr name), (''username'', PStr username),
      (''process'', PProc h),
      (''port'', (case port of None \<Rightarrow> PNone | Some p \<Rightarrow> PInt (int p))),
      (''type'', PStr (if is_site then ''site'' else ''bot''))]"

definition register_body ::
  "config \<Rightarrow> reg_env \<Rightarrow> string \<Rightarrow> string \<Rightarrow> string option \<Rightarrow> string option \<Rightarrow> bool \<Rightarrow> world
    \<Rightarrow> (outcome, outcome) flow \<times> world"
where
  "register_body cfg env token name code_content code_path is_site w =
     bind_flow (validate env token is_site w) (\<lambda>me_username w1.
     bind_flow (prepare_path cfg env token w1) (\<lambda>dir w2.
     bind_flow (stage cfg env dir code_content code_path w2) (\<lambda>(entry_point, runtime) w3.
       (case entry_point of
          None \<Rightarrow> (Return (False, ''Could not find entry point''), w3)
        | Some ep \<Rightarrow>
            bind_flow
              (create_subprocess_exec env
                 (if runtime = ''npm'' then [''npm'', ''start''] else [runtime, ep])
                 dir token
                 (if is_site then Some (10000 + length (bots w3) + 1) else None) w3)
              (\<lambda>h w4.
                 (Return (True, me_username),
                  w4\<lparr>bots :=
                       dict_set token
                         (mk_info token name me_username h
                            (if is_site then Some (10000 + length (bots w3) + 1) else None)
                            is_site)
                         (bots w4)\<rparr>))))))"

text \<open>
  The whole method: \<^verbatim>\<open>except Exception as e: return False, str(e)\<close> around the body.
  The two log-relay tasks started after the spawn run concurrently and touch neither
  the registry nor the files; they are left out.
\<close>

definition register ::
  "config \<Rightarrow> reg_env \<Rightarrow> string \<Rightarrow> string \<Rightarrow> string option \<Rightarrow> string option \<Rightarrow> bool \<Rightarrow> world
    \<Rightarrow> outcome \<times> world"
where
  "register cfg env token name code_content code_path is_site w =
     (case register_body cfg env token name code_content code_path is_site w of
        (Raise e, w') \<Rightarrow> ((False, str_exc e), w')
      | (Return r, w') \<Rightarrow> (r, w')
      | (Continue r, w') \<Rightarrow> (r, w'))"

section \<open>BotRegistry.unregister\<close>

text \<open>
  What \<^verbatim>\<open>process.terminate()\<close>, \<^verbatim>\<open>wait_for(process.wait(), 5.0)\<close> and \<^verbatim>\<open>process.kill()\<close>
  do in one call: \<open>None\<close> is a normal return, \<open>Some e\<close> the exception raised
  (\<open>TimeoutError\<close> from the wait is the grace period running out).
\<close>

record unreg_env =
  terminate_exc :: "exc option"
  wait_exc :: "exc option"
  kill_exc :: "exc option"

text \<open>The two handlers of lines 747-750.\<close>

definition on_terminate_exc :: "exc \<Rightarrow> event list" where
  "on_terminate_exc e =
     (if e = ProcessLookupError then []
      else [LogError (''Error terminating process: '' @ str_exc e)])"

text \<open>Lines 740-750 for a process handle.\<close>

definition terminate_process :: "unreg_env \<Rightarrow> nat \<Rightarrow> event list" where
  "terminate_process env h =
     Terminate h #
     (case terminate_exc env of
        Some e \<Rightarrow> on_terminate_exc e
      | None \<Rightarrow>
          Wait h #
          (case wait_exc env of
             None \<Rightarrow> []
           | Some e \<Rightarrow>
               if e = TimeoutError then
                 Kill h # (case kill_exc env of None \<Rightarrow> [] | Some e' \<Rightarrow> on_terminate_exc e')
               else on_terminate_exc e))"

definition unregister :: "unreg_env \<Rightarrow> string \<Rightarrow> world \<Rightarrow> bool \<times> world" where
  "unregister env token w =
     (case dict_get (bots w) token of
        None \<Rightarrow> (False, w)
      | Some info \<Rightarrow>
          (True,
           w\<lparr>bots := dict_del token (bots w),
             trace := trace w
               @ (case get_py info ''process'' of
                    PProc h \<Rightarrow> terminate_process env h
                  | v \<Rightarrow> if truthy v
                         then [LogError (''Error terminating process: '' @ str_exc (TypeError []))]
                         else [])
               @ (if truthy (get_py info ''log_file'') then [CloseLogFile] else [])\<rparr>))"


section \<open>Sequences of registry operations\<close>

datatype op =
    Register reg_env string string "string option" "string option" bool
  | Unregister unreg_env string

fun step :: "config \<Rightarrow> world \<Rightarrow> op \<Rightarrow> world" where
  "step cfg w (Register env token name code_content code_path is_site) =
     snd (register cfg env token name code_content code_path is_site w)"
| "step cfg w (Unregister env token) = snd (unregister env token w)"

definition run :: "config \<Rightarrow> op list \<Rightarrow> world \<Rightarrow> world" where
  "run cfg ops w = foldl (step cfg) w ops"

text \<open>Whether a record is of kind Site, and the process handles the registry tracks.\<close>

definition is_site_info :: "info \<Rightarrow> bool" where
  "is_site_info b = (get_py b ''type'' = PStr ''site'')"

definition tracked :: "world \<Rightarrow> pyval list" where
  "tracked w = map (\<lambda>b. get_py b ''process'') (dict_values (bots w))"

text \<open>
  The handles of the children that were started, and the handles to which \<^verbatim>\<open>terminate\<close>
  or \<^verbatim>\<open>kill\<close> was sent, oldest first.
\<close>

fun spawned :: "event list \<Rightarrow> nat list" where
  "spawned [] = []"
| "spawned (Spawn cmd dir tok port h # es) = h # spawned es"
| "spawned (e # es) = spawned es"

fun signalled :: "event list \<Rightarrow> nat list" where
  "signalled [] = []"
| "signalled (Terminate h # es) = h # signalled es"
| "signalled (Kill h # es) = h # signalled es"
| "signalled (e # es) = signalled es"

text \<open>The working directories of the children that were started, oldest first.\<close>

fun spawn_dirs :: "event list \<Rightarrow> string list" where
  "spawn_dirs [] = []"
| "spawn_dirs (Spawn cmd dir tok port h # es) = dir # spawn_dirs es"
| "spawn_dirs (e # es) = spawn_dirs es"

section \<open>BotRegistry.process-update and the webhook route of a hosted workload\<close>

text \<open>
  The two dictionaries \<^verbatim>\<open>process_update\<close> returns: \<^verbatim>\<open>{"ok": True}\<close> and
  \<^verbatim>\<open>{"ok": False, "error": str(e)}\<close>.
\<close>

datatype update_result = UpdOk | UpdFailed string

text \<open>
  What one inbound event meets: the parsed JSON body (\<open>None\<close>: \<^verbatim>\<open>request.json()\<close>
  raised), and the exceptions of \<^verbatim>\<open>increment_stats\<close>, of \<^verbatim>\<open>types.Update(**update_data)\<close>
  and of \<^verbatim>\<open>dp.feed_update\<close>.
\<close>

record upd_env =
  json_body :: "(string, pyval) dict option"
  db_exc :: "exc option"
  update_exc :: "exc option"
  feed_exc :: "exc option"

text \<open>Line 773: \<^verbatim>\<open>bot_info['total_updates'] += 1\<close>.\<close>

definition bump_total_updates :: "string \<Rightarrow> info \<Rightarrow> world \<Rightarrow> (update_result, info) flow \<times> world" where
  "bump_total_updates token bot_info w =
     (case dict_get bot_info ''total_updates'' of
        None \<Rightarrow> (Raise (KeyError ''total_updates''), w)
      | Some (PInt n) \<Rightarrow>
          (Continue (dict_set ''total_updates'' (PInt (n + 1)) bot_info),
           w\<lparr>bots := dict_set token (dict_set ''total_updates'' (PInt (n + 1)) bot_info) (bots w)\<rparr>)
      | Some v \<Rightarrow> (Raise (TypeError ''unsupported operand type(s) for +=''), w))"

text \<open>Lines 776-778.\<close>

definition increment_stats ::
  "bool \<Rightarrow> upd_env \<Rightarrow> string \<Rightarrow> (string, pyval) dict \<Rightarrow> world \<Rightarrow> (update_result, unit) flow \<times> world"
where
  "increment_stats has_db env token update_data w =
     (if has_db then
        (case db_exc env of
           Some e \<Rightarrow> (Raise e, w)
         | None \<Rightarrow>
             (Continue (), emit (IncrementStats token (dict_get update_data ''message'' \<noteq> None)) w))
      else (Continue (), w))"

text \<open>Lines 781-785: the workload's own dispatcher.\<close>

definition feed_update ::
  "upd_env \<Rightarrow> string \<Rightarrow> info \<Rightarrow> world \<Rightarrow> (update_result, unit) flow \<times> world"
where
  "feed_update env token bot_info w =
     (case dict_get bot_info ''bot'' of
        None \<Rightarrow> (Raise (KeyError ''bot''), w)
      | Some the_bot \<Rightarrow>
          (case dict_get bot_info ''dp'' of
             None \<Rightarrow> (Raise (KeyError ''dp''), w)
           | Some the_dp \<Rightarrow>
               (case update_exc env of
                  Some e \<Rightarrow> (Raise e, w)
                | None \<Rightarrow>
                    (case feed_exc env of
                       Some e \<Rightarrow> (Raise e, emit (FeedUpdate token) w)
                     | None \<Rightarrow> (Continue (), emit (FeedUpdate token) w)))))"

definition process_update ::
  "bool \<Rightarrow> upd_env \<Rightarrow> string \<Rightarrow> (string, pyval) dict \<Rightarrow> world \<Rightarrow> update_result option \<times> world"
where
  "process_update has_db env token update_data w =
     (case dict_get (bots w) token of
        None \<Rightarrow> (None, w)
      | Some bot_info \<Rightarrow>
          (case bind_flow (bump_total_updates token bot_info w) (\<lambda>bot_info' w1.
                bind_flow (increment_stats has_db env token update_data w1) (\<lambda>u w2.
                bind_flow (feed_update env token bot_info' w2) (\<lambda>u w3.
                  (Return UpdOk, w3)))) of
             (Raise e, w') \<Rightarrow> (Some (UpdFailed (str_exc e)), w')
           | (Return r, w') \<Rightarrow> (Some r, w')
           | (Continue r, w') \<Rightarrow> (Some r, w')))"

text \<open>
  An HTTP response: \<^verbatim>\<open>web.Response(text=..)\<close>, \<^verbatim>\<open>web.Response(body=..)\<close>,
  \<^verbatim>\<open>web.json_response(..)\<close> or a response without a body.
\<close>

datatype payload = NoBody | Text string | Body string | Json update_result

record http_response =
  resp_status :: nat
  resp_headers :: "(string, string) dict"
  resp_body :: payload

text \<open>Lines 1452-1468. Both result dictionaries are non-empty, hence true.\<close>

definition hosted_webhook :: "bool \<Rightarrow> upd_env \<Rightarrow> string \<Rightarrow> world \<Rightarrow> http_response \<times> world" where
  "hosted_webhook has_db env token w =
     (case json_body env of
        None \<Rightarrow> (\<lparr>resp_status = 500, resp_headers = [], resp_body = NoBody\<rparr>, w)
      | Some update_data \<Rightarrow>
          (case process_update has_db env token update_data w of
             (Some r, w') \<Rightarrow> (\<lparr>resp_status = 200, resp_headers = [], resp_body = Json r\<rparr>, w')
           | (None, w') \<Rightarrow> (\<lparr>resp_status = 404, resp_headers = [], resp_body = NoBody\<rparr>, w')))"

section \<open>The reverse-proxy route of a site\<close>

record http_request =
  req_token :: string
  req_path :: string
  req_query :: string
  req_method :: string
  req_headers :: "(string, string) dict"
  req_body :: string

text \<open>
  The child behind a URL: given method, URL, headers and body it answers with status,
  headers and body, or the request raises (connection refused, timeout).
\<close>

type_synonym downstream =
  "string \<Rightarrow> string \<Rightarrow> (string, string) dict \<Rightarrow> string \<Rightarrow> exc + nat \<times> (string, string) dict \<times> string"

text \<open>Lines 1607-1610: the first record whose username or token is the path segment.\<close>

definition matches :: "string \<Rightarrow> info \<Rightarrow> bool" where
  "matches token_id b =
     (str_py (get_py b ''username'') = token_id \<or> str_py (get_py b ''token'') = token_id)"

definition find_target :: "(string, info) dict \<Rightarrow> string \<Rightarrow> info option" where
  "find_target registry token_id = find (matches token_id) (dict_values registry)"

text \<open>Lines 1616-1618.\<close>

definition target_url :: "info \<Rightarrow> http_request \<Rightarrow> string" where
  "target_url b req =
     ''http://localhost:'' @ str_py (get_py b ''port'') @ ''/'' @ req_path req
       @ (if req_query req = [] then [] else ''?'' @ req_query req)"

text \<open>
  Line 1620: \<^verbatim>\<open>aiohttp.ClientSession()\<close>. The name \<^verbatim>\<open>aiohttp\<close> is not bound in the module:
  line 24 imports only \<^verbatim>\<open>web\<close> from that package, and the \<^verbatim>\<open>import aiohttp\<close> of line 1647
  is local to \<^verbatim>\<open>self_ping\<close>. So evaluating the expression raises \<^verbatim>\<open>NameError\<close>.
\<close>

definition client_session :: "exc + unit" where
  "client_session = Inl (NameError ''aiohttp'')"

text \<open>
  Lines 1604-1627. The session is created before the \<^verbatim>\<open>try\<close> of line 1621, so its
  exception leaves the handler: the result is the exception (which the web server
  answers with status 500) or the handler's response.
\<close>

definition site_proxy ::
  "downstream \<Rightarrow> (string, info) dict \<Rightarrow> http_request \<Rightarrow> exc + http_response"
where
  "site_proxy child registry req =
     (case find_target registry (req_token req) of
        None \<Rightarrow> Inr \<lparr>resp_status = 404, resp_headers = [], resp_body = Text ''Site Not Found''\<rparr>
      | Some b \<Rightarrow>
          if b \<noteq> [] \<and> truthy (get_py b ''port'') then
            (case client_session of
               Inl e \<Rightarrow> Inl e
             | Inr session \<Rightarrow>
                 (case child (req_method req) (target_url b req)
                         (dict_del ''Host'' (req_headers req)) (req_body req) of
                    Inl e \<Rightarrow>
                      Inr \<lparr>resp_status = 502, resp_headers = [],
                           resp_body = Text (''Proxy Error: '' @ str_exc e)\<rparr>
                  | Inr (st, hs, bd) \<Rightarrow>
                      Inr \<lparr>resp_status = st, resp_headers = hs, resp_body = Body bd\<rparr>))
          else Inr \<lparr>resp_status = 404, resp_headers = [], resp_body = Text ''Site Not Found''\<rparr>)"

section \<open>The code-upload flow\<close>

text \<open>
  The message that carries the code: an uploaded document (file name and content) or
  text. \<open>download_exc\<close> is the exception of fetching the document, if any.
\<close>

record message =
  msg_document :: "(string \<times> string) option"
  msg_text :: "string option"





section \<open>Reading the claims\<close>

text \<open>
  The recognised entry file names, and the entry point and runtime that go with each.
\<close>

definition recognised :: "string \<Rightarrow> bool" where
  "recognised f = (f = ''main.py'' \<or> f = ''index.js'' \<or> f = ''package.json'')"

definition entry_for :: "string \<Rightarrow> string \<Rightarrow> string \<Rightarrow> string option \<times> string" where
  "entry_for dir runtime f =
     (if f = ''main.py'' then (Some (path_join dir f), runtime)
      else if f = ''index.js'' then (Some (path_join dir f), ''node'')
      else (Some dir, ''npm''))"

section \<open>Concrete configurations and scenarios\<close>

text \<open>
  A configuration whose hash table holds the MD5 digests of the identities used below,
  environments in which nothing fails, and the worlds the scenarios start from.
\<close>

definition cfg0 :: config where
  "cfg0 =
     \<lparr>md5_hexdigest = (\<lambda>t.
          if t = ''siteA'' then ''19fecf00ef5efe1a40e186b174e3f7d0''
          else if t = ''siteB'' then ''e81532dc70e8643b795d1a1e992b6a0d''
          else if t = ''siteC'' then ''2df7946c9daa216150ded7b95e425aa8''
          else if t = ''first'' then ''8b04d5e3775d298e78455efc5ca404d5''
          else if t = ''website'' then ''d1befa03c79ca0b84ecc488dea96bc68''
          else if t = ''123456:ABC'' then ''dcde406067ea06eef84971fc85f3a3c7''
          else ''d41d8cd98f00b204e9800998ecf8427e''),
      getcwd = ''/srv/app'', sys_executable = ''/usr/bin/python3''\<rparr>"

definition env_ok :: "nat \<Rightarrow> reg_env" where
  "env_ok h = \<lparr>bot_init = None, get_me = Some ''demo_bot'', makedirs_exc = None, write_exc = None,
     extract_zip = Inr [], spawn = Inr h\<rparr>"

definition quiet :: unreg_env where
  "quiet = \<lparr>terminate_exc = None, wait_exc = None, kill_exc = None\<rparr>"

definition gone :: unreg_env where
  "gone = \<lparr>terminate_exc = Some ProcessLookupError, wait_exc = None, kill_exc = None\<rparr>"

definition w_siteA :: world where
  "w_siteA = run cfg0 [Register (env_ok 1) ''siteA'' ''UserApp'' (Some ''print(1)'') None True] init_world"

text \<open>Environments in which one step fails, and one with a given directory listing.\<close>

definition env_no_me :: reg_env where
  "env_no_me = \<lparr>bot_init = None, get_me = None, makedirs_exc = None, write_exc = None,
     extract_zip = Inr [], spawn = Inr 9\<rparr>"

definition env_no_spawn :: reg_env where
  "env_no_spawn = \<lparr>bot_init = None, get_me = Some ''demo_bot'', makedirs_exc = None, write_exc = None,
     extract_zip = Inr [], spawn = Inl (FileNotFoundError ''/usr/bin/python3'')\<rparr>"


definition env_zip :: "string list \<Rightarrow> nat \<Rightarrow> reg_env" where
  "env_zip listing h = \<lparr>bot_init = None, get_me = Some ''demo_bot'', makedirs_exc = None,
     write_exc = None, extract_zip = Inr listing, spawn = Inr h\<rparr>"


text \<open>Sequences of operations, and the worlds they lead to.\<close>

definition ops_port_reuse :: "op list" where
  "ops_port_reuse =
     [Register (env_ok 1) ''siteA'' ''UserApp'' (Some ''print(1)'') None True,
      Register (env_ok 2) ''siteB'' ''UserApp'' (Some ''print(2)'') None True,
      Unregister quiet ''siteA'',
      Register (env_ok 3) ''siteC'' ''UserApp'' (Some ''print(3)'') None True]"

definition ops_redeploy :: "op list" where
  "ops_redeploy =
     [Register (env_ok 1) ''siteA'' ''UserApp'' (Some ''print(1)'') None True,
      Register (env_ok 2) ''siteA'' ''UserApp'' (Some ''print(2)'') None True]"

definition w_bot :: world where
  "w_bot = run cfg0 [Register (env_ok 1) ''123456:ABC'' ''UserApp'' (Some ''print(1)'') None False] init_world"

text \<open>An inbound event with a message, for which nothing outside fails.\<close>

definition upd_message :: upd_env where
  "upd_message =
     \<lparr>json_body = Some [(''update_id'', PInt 1), (''message'', PObj 0)],
      db_exc = None, update_exc = None, feed_exc = None\<rparr>"

text \<open>
  Children that all answer; the one listening on port \<open>p\<close> answers \<^verbatim>\<open>/ping\<close> with 201
  and \<^verbatim>\<open>ok\<close>. A request for \<^verbatim>\<open>/site/t/ping\<close>.
\<close>

definition child_at :: "nat \<Rightarrow> downstream" where
  "child_at p m url hs bd =
     (if url = ''http://localhost:'' @ str_nat p @ ''/ping'' then Inr (201, [], ''ok'')
      else Inr (200, [], ''hello''))"

definition req_ping :: "string \<Rightarrow> http_request" where
  "req_ping t =
     \<lparr>req_token = t, req_path = ''ping'', req_query = [], req_method = ''GET'',
      req_headers = [(''Host'', ''example.org'')], req_body = []\<rparr>"



section \<open>Properties\<close>

subsection \<open>Dictionaries and the phases of register\<close>


lemma dict_get_dict_del: "dict_get (dict_del k d) k' = (if k' = k then None else dict_get d k')"
  by (induction d) auto

lemma register_result:
  "register cfg env token name cc cp is_site w =
     (case validate env token is_site w of
        (Raise e, w1) \<Rightarrow> ((False, str_exc e), w1)
      | (Return r, w1) \<Rightarrow> (r, w1)
      | (Continue u, w1) \<Rightarrow>
         (case prepare_path cfg env token w1 of
            (Raise e, w2) \<Rightarrow> ((False, str_exc e), w2)
          | (Return r, w2) \<Rightarrow> (r, w2)
          | (Continue dir, w2) \<Rightarrow>
             (case stage cfg env dir cc cp w2 of
                (Raise e, w3) \<Rightarrow> ((False, str_exc e), w3)
              | (Return r, w3) \<Rightarrow> (r, w3)
              | (Continue (None, rt), w3) \<Rightarrow> ((False, ''Could not find entry point''), w3)
              | (Continue (Some ep, rt), w3) \<Rightarrow>
                  (case spawn env of
                     Inl e \<Rightarrow> ((False, str_exc e), w3)
                   | Inr h \<Rightarrow>
                      ((True, u),
                       w3\<lparr>bots := dict_set token
                                (mk_info token name u h
                                   (if is_site then Some (10000 + length (bots w3) + 1) else None) is_site)
                                (bots w3),
                          trace := trace w3 @
                            [Spawn (if rt = ''npm'' then [''npm'', ''start''] else [rt, ep]) dir token
                               (if is_site then Some (10000 + length (bots w3) + 1) else None) h]\<rparr>)))))"
  by (simp add: register_def register_body_def create_subprocess_exec_def emit_def
      split: prod.splits flow.splits option.splits sum.splits)

lemma validate_Continue:
  "validate env token is_site w = (Continue u, w1) \<Longrightarrow>
     bots w1 = bots w \<and> files w1 = files w \<and>
     (if is_site then u = ''website'' \<and> w1 = w
      else bot_init env = None \<and> get_me env = Some u \<and> w1 = emit (GetMe token) w)"
  by (auto simp: validate_def emit_def split: option.splits if_splits)

lemma validate_Return:
  "validate env token is_site w = (Return r, w1) \<Longrightarrow>
     r = (False, ''Invalid Token'') \<and> \<not> is_site \<and> bot_init env = None \<and> get_me env = None
     \<and> w1 = emit (GetMe token) w"
  by (auto simp: validate_def split: option.splits if_splits)

lemma validate_Raise:
  "validate env token is_site w = (Raise e, w1) \<Longrightarrow> w1 = w \<and> \<not> is_site \<and> bot_init env = Some e"
  by (auto simp: validate_def split: option.splits if_splits)

lemma prepare_path_Continue:
  "prepare_path cfg env token w = (Continue dir, w1) \<Longrightarrow>
     dir = target_dir cfg token \<and> makedirs_exc env = None \<and>
     w1 = emit (MakeDirs (target_dir cfg token)) (emit (MakeDirs ''hosted_apps'') w)"
  by (auto simp: prepare_path_def split: option.splits)

lemma prepare_path_Return: "prepare_path cfg env token w \<noteq> (Return r, w1)"
  by (auto simp: prepare_path_def split: option.splits)

lemma prepare_path_Raise:
  "prepare_path cfg env token w = (Raise e, w1) \<Longrightarrow> w1 = w \<and> makedirs_exc env = Some e"
  by (auto simp: prepare_path_def split: option.splits)

lemma stage_Return: "stage cfg env dir cc cp w \<noteq> (Return r, w1)"
  by (auto simp: stage_def split: option.splits list.splits sum.splits if_splits)

lemma stage_Raise: "stage cfg env dir cc cp w = (Raise e, w1) \<Longrightarrow> w1 = w"
  by (auto simp: stage_def split: option.splits list.splits sum.splits if_splits)

lemma stage_bots: "stage cfg env dir cc cp w = (x, w1) \<Longrightarrow> bots w1 = bots w"
  by (auto simp: stage_def emit_def split: option.splits list.splits sum.splits if_splits)

lemma emit_bots: "bots (emit e w) = bots w"
  by (simp add: emit_def)

lemma register_failure_frame:
  assumes "fst (fst (register cfg env token name cc cp is_site w)) = False"
  shows "bots (snd (register cfg env token name cc cp is_site w)) = bots w"
proof -
  obtain x1 w1 where v: "validate env token is_site w = (x1, w1)" by force
  obtain x2 w2 where p: "prepare_path cfg env token w1 = (x2, w2)" by force
  have b1: "bots w1 = bots w"
    using v by (cases x1) (auto dest: validate_Continue validate_Return validate_Raise simp: emit_bots)
  have b2: "bots w2 = bots w1"
    using p by (cases x2) (auto dest: prepare_path_Continue prepare_path_Raise simp: emit_bots prepare_path_Return)
  show ?thesis
  proof (cases x1)
    case (Continue u)
    show ?thesis
    proof (cases x2)
      case (Continue dir)
      obtain x3 w3 where s: "stage cfg env dir cc cp w2 = (x3, w3)" by force
      have b3: "bots w3 = bots w2" using s by (rule stage_bots)
      show ?thesis
        using assms v p s b1 b2 b3 \<open>x1 = Continue u\<close> \<open>x2 = Continue dir\<close>
        by (cases x3) (auto simp: register_result stage_Return split: option.splits sum.splits)
    qed (use v p b1 b2 Continue in \<open>auto simp: register_result\<close>)
  qed (use v b1 in \<open>auto simp: register_result\<close>)
qed

lemma find_entry_first:
  "find_entry dir rt listing =
     (case filter recognised listing of [] \<Rightarrow> (None, rt) | f # fs \<Rightarrow> entry_for dir rt f)"
  by (induction listing) (auto simp: recognised_def entry_for_def)

lemmas eval_defs = register_def register_body_def validate_def prepare_path_def stage_def
  create_subprocess_exec_def mk_info_def emit_def target_dir_def abspath_def path_join_def
  unregister_def terminate_process_def on_terminate_exc_def get_py_def run_def init_world_def
  cfg0_def env_ok_def quiet_def gone_def

subsection \<open>Terminating and unregistering\<close>

text \<open>
  Claim C4. Unregistering an identity that has no record returns \<open>False\<close> and leaves
  the whole state as it was. Unregistering a registered identity returns \<open>True\<close>
  whatever the process operations do, the identity has no record afterwards, every
  other identity keeps its record, \<^verbatim>\<open>terminate\<close> was sent to the record's process, and
  when the process is already gone (\<^verbatim>\<open>ProcessLookupError\<close>) nothing but that attempt
  happens: no error is logged.
\<close>

theorem C4_unregister:
  "(dict_get (bots w) token = None \<longrightarrow> unregister env token w = (False, w))
   \<and> (\<forall>info. dict_get (bots w) token = Some info \<longrightarrow>
         fst (unregister env token w) = True
       \<and> dict_get (bots (snd (unregister env token w))) token = None
       \<and> (\<forall>t. t \<noteq> token \<longrightarrow>
              dict_get (bots (snd (unregister env token w))) t = dict_get (bots w) t)
       \<and> (\<forall>h. get_py info ''process'' = PProc h \<longrightarrow>
              Terminate h \<in> set (trace (snd (unregister env token w))))
       \<and> (\<forall>h. get_py info ''process'' = PProc h \<and> terminate_exc env = Some ProcessLookupError
                \<and> get_py info ''log_file'' = PNone \<longrightarrow>
              trace (snd (unregister env token w)) = trace w @ [Terminate h]))"
  by (auto simp: unregister_def dict_get_dict_del terminate_process_def on_terminate_exc_def
        split: option.splits)

lemma w_siteA_bots:
  "bots w_siteA = [(''siteA'', mk_info ''siteA'' ''UserApp'' ''website'' 1 (Some 10001) True)]"
  by (simp add: w_siteA_def eval_defs)

theorem C4_unregister_witness:
  "dict_get (bots w_siteA) ''siteA'' = Some (mk_info ''siteA'' ''UserApp'' ''website'' 1 (Some 10001) True)
   \<and> get_py (mk_info ''siteA'' ''UserApp'' ''website'' 1 (Some 10001) True) ''process'' = PProc 1
   \<and> fst (unregister gone ''siteA'' w_siteA) = True
   \<and> dict_get (bots (snd (unregister gone ''siteA'' w_siteA))) ''siteA'' = None
   \<and> trace (snd (unregister gone ''siteA'' w_siteA)) = trace w_siteA @ [Terminate 1]
   \<and> dict_get (bots w_siteA) ''ghost'' = None
   \<and> unregister quiet ''ghost'' w_siteA = (False, w_siteA)"
proof -
  have r: "dict_get (bots w_siteA) ''siteA'' = Some (mk_info ''siteA'' ''UserApp'' ''website'' 1 (Some 10001) True)"
    by (simp add: w_siteA_bots)
  have p: "get_py (mk_info ''siteA'' ''UserApp'' ''website'' 1 (Some 10001) True) ''process'' = PProc 1"
    by (simp add: mk_info_def get_py_def)
  have l: "get_py (mk_info ''siteA'' ''UserApp'' ''website'' 1 (Some 10001) True) ''log_file'' = PNone"
    by (simp add: mk_info_def get_py_def)
  have g: "dict_get (bots w_siteA) ''ghost'' = None"
    by (simp add: w_siteA_bots)
  have e: "terminate_exc gone = Some ProcessLookupError"
    by (simp add: gone_def)
  show ?thesis
    using C4_unregister [of w_siteA "''siteA''" gone] C4_unregister [of w_siteA "''ghost''" quiet]
      r p l g e by simp
qed

subsection \<open>What each phase of register returns\<close>

lemma validate_site: "validate env token True w = (Continue ''website'', w)"
  by (simp add: validate_def)

lemma validate_bot_ok:
  "bot_init env = None \<Longrightarrow> get_me env = Some u \<Longrightarrow>
   validate env token False w = (Continue u, emit (GetMe token) w)"
  by (simp add: validate_def)

lemma validate_bot_bad:
  "bot_init env = None \<Longrightarrow> get_me env = None \<Longrightarrow>
   validate env token False w = (Return (False, ''Invalid Token''), emit (GetMe token) w)"
  by (simp add: validate_def)


lemma prepare_path_ok:
  "makedirs_exc env = None \<Longrightarrow>
   prepare_path cfg env token w =
     (Continue (target_dir cfg token),
      emit (MakeDirs (target_dir cfg token)) (emit (MakeDirs ''hosted_apps'') w))"
  by (simp add: prepare_path_def)

lemma endswith_nonempty: "endswith p (c # cs) \<Longrightarrow> p \<noteq> []"
  by (auto simp: endswith_def)

lemma stage_zip:
  assumes "falsy cc" "endswith p ''.zip''" "extract_zip env = Inr listing"
  shows "stage cfg env dir cc (Some p) w =
           (Continue (find_entry dir (sys_executable cfg) listing), emit (ExtractAll p dir) w)"
proof -
  obtain c cs where p: "p = c # cs"
    using assms(2) by (cases p) (auto simp: endswith_def)
  from assms(1) have "cc = None \<or> cc = Some []"
    by (cases cc) auto
  then show ?thesis
    using assms(2,3) p by (auto simp: stage_def)
qed

lemma register_spawn_failure:
  "spawn env = Inl e \<Longrightarrow> fst (fst (register cfg env token name cc cp is_site w)) = False"
  by (auto simp: register_result prepare_path_Return stage_Return
        split: prod.splits flow.splits option.splits dest: validate_Return)

lemma register_invalid_token:
  "bot_init env = None \<Longrightarrow> get_me env = None \<Longrightarrow>
   register cfg env token name cc cp False w = ((False, ''Invalid Token''), emit (GetMe token) w)"
  by (simp add: register_result validate_bot_bad)

lemma register_no_entry:
  assumes "is_site \<or> bot_init env = None \<and> get_me env \<noteq> None" "makedirs_exc env = None"
    "falsy cc" "endswith p ''.zip''" "extract_zip env = Inr listing" "filter recognised listing = []"
  shows "fst (register cfg env token name cc (Some p) is_site w) = (False, ''Could not find entry point'')"
proof -
  obtain u w1 where v: "validate env token is_site w = (Continue u, w1)"
    using assms(1) by (cases is_site) (auto simp: validate_site validate_bot_ok)
  have f: "find_entry (target_dir cfg token) (sys_executable cfg) listing = (None, sys_executable cfg)"
    using assms(6) by (simp add: find_entry_first)
  show ?thesis
    using v f assms(2-5)
    by (simp add: register_result prepare_path_ok stage_zip)
qed

subsection \<open>Failed registrations\<close>

text \<open>
  Claim C5. A call of \<^verbatim>\<open>register\<close> that returns a failure leaves the registry exactly
  as it was. The three failures the claim names are failures: a token that \<^verbatim>\<open>get_me\<close>
  rejects gives \<^verbatim>\<open>(False, "Invalid Token")\<close>, a spawn that raises gives \<open>False\<close>, and an
  archive whose listing holds no recognised entry file gives
  \<^verbatim>\<open>(False, "Could not find entry point")\<close>.
\<close>

theorem C5_failed_register:
  "(fst (fst (register cfg env token name cc cp is_site w)) = False \<longrightarrow>
      bots (snd (register cfg env token name cc cp is_site w)) = bots w)
   \<and> (\<not> is_site \<and> bot_init env = None \<and> get_me env = None \<longrightarrow>
        fst (register cfg env token name cc cp is_site w) = (False, ''Invalid Token''))
   \<and> (\<forall>e. spawn env = Inl e \<longrightarrow> fst (fst (register cfg env token name cc cp is_site w)) = False)
   \<and> (\<forall>p listing.
         (is_site \<or> bot_init env = None \<and> get_me env \<noteq> None) \<and> makedirs_exc env = None
         \<and> falsy cc \<and> cp = Some p \<and> endswith p ''.zip'' \<and> extract_zip env = Inr listing
         \<and> filter recognised listing = [] \<longrightarrow>
         fst (register cfg env token name cc cp is_site w) = (False, ''Could not find entry point''))"
  using register_failure_frame [of cfg env token name cc cp is_site w]
    register_spawn_failure [of env _ cfg token name cc cp is_site w]
    register_invalid_token [of env cfg token name cc cp w]
    register_no_entry [of is_site env cc _ _ cfg token name w]
  by auto

lemma w_siteA_eq:
  "w_siteA =
     \<lparr>bots = [(''siteA'', mk_info ''siteA'' ''UserApp'' ''website'' 1 (Some 10001) True)],
      files = [''/srv/app/hosted_apps/app_19fecf00ef5efe1a40e186b174e3f7d0/main.py'' \<mapsto> ''print(1)''],
      trace = [MakeDirs ''hosted_apps'',
               MakeDirs ''/srv/app/hosted_apps/app_19fecf00ef5efe1a40e186b174e3f7d0'',
               Spawn [''/usr/bin/python3'',
                      ''/srv/app/hosted_apps/app_19fecf00ef5efe1a40e186b174e3f7d0/main.py'']
                 ''/srv/app/hosted_apps/app_19fecf00ef5efe1a40e186b174e3f7d0'' ''siteA''
                 (Some 10001) 1]\<rparr>"
  by (simp add: w_siteA_def eval_defs)

theorem C5_failed_register_witness:
  "fst (register cfg0 env_no_me ''123456:ABC'' ''UserApp'' (Some ''print(2)'') None False w_siteA)
     = (False, ''Invalid Token'')
   \<and> bots (snd (register cfg0 env_no_me ''123456:ABC'' ''UserApp'' (Some ''print(2)'') None False w_siteA))
     = bots w_siteA
   \<and> fst (fst (register cfg0 env_no_spawn ''siteB'' ''UserApp'' (Some ''print(2)'') None True w_siteA))
     = False
   \<and> bots (snd (register cfg0 env_no_spawn ''siteB'' ''UserApp'' (Some ''print(2)'') None True w_siteA))
     = bots w_siteA
   \<and> fst (register cfg0 (env_zip [''README.md'', ''src''] 2) ''siteB'' ''UserApp'' None
            (Some ''/srv/app/tmp_site.zip'') True w_siteA)
     = (False, ''Could not find entry point'')
   \<and> bots (snd (register cfg0 (env_zip [''README.md'', ''src''] 2) ''siteB'' ''UserApp'' None
            (Some ''/srv/app/tmp_site.zip'') True w_siteA))
     = bots w_siteA"
proof -
  have a: "bot_init env_no_me = None \<and> get_me env_no_me = None"
    by (simp add: env_no_me_def)
  have b: "spawn env_no_spawn = Inl (FileNotFoundError ''/usr/bin/python3'')"
    by (simp add: env_no_spawn_def)
  have c: "makedirs_exc (env_zip [''README.md'', ''src''] 2) = None
      \<and> extract_zip (env_zip [''README.md'', ''src''] 2) = Inr [''README.md'', ''src'']
      \<and> filter recognised [''README.md'', ''src''] = []
      \<and> endswith ''/srv/app/tmp_site.zip'' ''.zip'' \<and> falsy None"
    by (simp add: env_zip_def recognised_def endswith_def)
  show ?thesis
    using C5_failed_register [of cfg0 env_no_me "''123456:ABC''" "''UserApp''" "Some ''print(2)''" None False w_siteA]
      C5_failed_register [of cfg0 env_no_spawn "''siteB''" "''UserApp''" "Some ''print(2)''" None True w_siteA]
      C5_failed_register [of cfg0 "env_zip [''README.md'', ''src''] 2" "''siteB''" "''UserApp''" None
         "Some ''/srv/app/tmp_site.zip''" True w_siteA]
      a b c
    by simp
qed

subsection \<open>Which payload is staged\<close>









lemma target_dir_siteA:
  "target_dir cfg0 ''siteA'' = ''/srv/app/hosted_apps/app_19fecf00ef5efe1a40e186b174e3f7d0''"
  by (simp add: target_dir_def abspath_def path_join_def cfg0_def)


text \<open>
  \<^verbatim>\<open>register\<close> tests the payload by truthiness (lines 655 and 658), so the empty string
  is no inline text: the call does exactly what it does with \<^verbatim>\<open>None\<close>.
\<close>

lemma stage_empty_text: "stage cfg env dir (Some []) cp w = stage cfg env dir None cp w"
  by (simp add: stage_def)

lemma register_empty_inline_text:
  "falsy cc \<Longrightarrow>
   register cfg env token name cc cp is_site w = register cfg env token name None cp is_site w"
  by (cases cc) (simp_all add: register_def register_body_def stage_empty_text)

subsection \<open>Successful registrations and the working directory\<close>

lemma spawn_dirs_append: "spawn_dirs (xs @ ys) = spawn_dirs xs @ spawn_dirs ys"
  by (induction xs rule: spawn_dirs.induct) auto

lemma stage_trace:
  "stage cfg env dir cc cp w = (x, w1) \<Longrightarrow>
   trace w1 = trace w \<or> (\<exists>p. trace w1 = trace w @ [ExtractAll p dir])"
  by (auto simp: stage_def emit_def split: option.splits list.splits sum.splits if_splits)

lemma validate_trace:
  "validate env token is_site w = (x, w1) \<Longrightarrow>
   trace w1 = trace w \<or> trace w1 = trace w @ [GetMe token]"
  by (auto simp: validate_def emit_def split: option.splits if_splits)

lemma register_success:
  assumes "fst (fst (register cfg env token name cc cp is_site w)) = True"
  shows "\<exists>u h pre cmd w3.
           spawn env = Inr h \<and> bots w3 = bots w \<and> trace w3 = trace w @ pre
         \<and> spawn_dirs pre = []
         \<and> register cfg env token name cc cp is_site w =
             ((True, u),
              w3\<lparr>bots := dict_set token
                      (mk_info token name u h
                         (if is_site then Some (10000 + length (bots w) + 1) else None) is_site)
                      (bots w),
                 trace := trace w3 @
                   [Spawn cmd (target_dir cfg token) token
                      (if is_site then Some (10000 + length (bots w) + 1) else None) h]\<rparr>)"
proof -
  obtain x1 w1 where v: "validate env token is_site w = (x1, w1)" by force
  obtain x2 w2 where p: "prepare_path cfg env token w1 = (x2, w2)" by force
  obtain x3 w3 where s: "stage cfg env (target_dir cfg token) cc cp w2 = (x3, w3)" by force
  have b1: "bots w1 = bots w"
    using v by (cases x1) (auto dest: validate_Continue validate_Return validate_Raise simp: emit_bots)
  from assms v obtain u where x1: "x1 = Continue u"
    by (cases x1) (auto simp: register_result dest: validate_Return)
  from assms v p x1 have x2: "x2 = Continue (target_dir cfg token)"
    by (cases x2) (auto simp: register_result prepare_path_Return dest: prepare_path_Continue)
  have w2: "w2 = emit (MakeDirs (target_dir cfg token)) (emit (MakeDirs ''hosted_apps'') w1)"
    using p x2 by (auto dest: prepare_path_Continue)
  from assms v p s x1 x2 obtain ep rt where x3: "x3 = Continue (Some ep, rt)"
    by (cases x3) (auto simp: register_result stage_Return split: option.splits)
  from assms v p s x1 x2 x3 obtain h where h: "spawn env = Inr h"
    by (cases "spawn env") (auto simp: register_result)
  have b3: "bots w3 = bots w"
    using stage_bots [OF s] b1 w2 by (simp add: emit_bots)
  have t1: "trace w1 = trace w \<or> trace w1 = trace w @ [GetMe token]"
    using v by (rule validate_trace)
  have t2: "trace w2 = trace w1 @ [MakeDirs ''hosted_apps'', MakeDirs (target_dir cfg token)]"
    using w2 by (simp add: emit_def)
  have t3: "trace w3 = trace w2 \<or> (\<exists>q. trace w3 = trace w2 @ [ExtractAll q (target_dir cfg token)])"
    using s by (rule stage_trace)
  from t1 t2 t3 obtain pre where pre: "trace w3 = trace w @ pre" "spawn_dirs pre = []"
    by (elim disjE exE) (simp_all add: spawn_dirs_append)
  have r: "register cfg env token name cc cp is_site w =
             ((True, u),
              w3\<lparr>bots := dict_set token
                      (mk_info token name u h
                         (if is_site then Some (10000 + length (bots w) + 1) else None) is_site)
                      (bots w),
                 trace := trace w3 @
                   [Spawn (if rt = ''npm'' then [''npm'', ''start''] else [rt, ep])
                      (target_dir cfg token) token
                      (if is_site then Some (10000 + length (bots w) + 1) else None) h]\<rparr>)"
    using v p s x1 x2 x3 h b3 by (simp add: register_result)
  show ?thesis
    using h b3 pre r by blast
qed

lemma register_spawn_dirs:
  assumes "fst (fst (register cfg env token name cc cp is_site w)) = True"
  shows "spawn_dirs (trace (snd (register cfg env token name cc cp is_site w)))
           = spawn_dirs (trace w) @ [target_dir cfg token]"
proof -
  from register_success [OF assms] obtain u h pre cmd w3 where
    "trace w3 = trace w @ pre" "spawn_dirs pre = []"
    "register cfg env token name cc cp is_site w =
       ((True, u),
        w3\<lparr>bots := dict_set token
                (mk_info token name u h
                   (if is_site then Some (10000 + length (bots w) + 1) else None) is_site)
                (bots w),
           trace := trace w3 @
             [Spawn cmd (target_dir cfg token) token
                (if is_site then Some (10000 + length (bots w) + 1) else None) h]\<rparr>)"
    by blast
  then show ?thesis
    by (simp add: spawn_dirs_append)
qed

lemma path_join_inject:
  "path_join a (''hosted_apps/app_'' @ x) = path_join a (''hosted_apps/app_'' @ y) \<Longrightarrow> x = y"
  by (auto simp: path_join_def split: if_splits)

text \<open>
  Claim C9. Two successful registrations of one identity, with any names, payloads, kinds,
  environments and prior states, start their child in the same working directory: the
  one \<^verbatim>\<open>register\<close> computes from the identity's hash alone. Identities with different
  hashes get different directories.
\<close>

theorem C9_working_directory:
  "(fst (fst (register cfg env1 token name1 cc1 cp1 site1 w1))
      \<and> fst (fst (register cfg env2 token name2 cc2 cp2 site2 w2)) \<longrightarrow>
      last (spawn_dirs (trace (snd (register cfg env1 token name1 cc1 cp1 site1 w1)))) = target_dir cfg token
    \<and> last (spawn_dirs (trace (snd (register cfg env2 token name2 cc2 cp2 site2 w2)))) = target_dir cfg token)
   \<and> (\<forall>dir w'. prepare_path cfg env1 token w1 = (Continue dir, w') \<longrightarrow> dir = target_dir cfg token)
   \<and> target_dir cfg token = path_join (getcwd cfg) (''hosted_apps/app_'' @ md5_hexdigest cfg token)
   \<and> (md5_hexdigest cfg token \<noteq> md5_hexdigest cfg token' \<longrightarrow> target_dir cfg token \<noteq> target_dir cfg token')"
  using register_spawn_dirs [of cfg env1 token name1 cc1 cp1 site1 w1]
    register_spawn_dirs [of cfg env2 token name2 cc2 cp2 site2 w2]
    path_join_inject [of "getcwd cfg" "md5_hexdigest cfg token" "md5_hexdigest cfg token'"]
  by (auto simp: target_dir_def abspath_def dest: prepare_path_Continue)

theorem C9_working_directory_witness:
  "fst (fst (register cfg0 (env_ok 1) ''siteA'' ''UserApp'' (Some ''print(1)'') None True init_world))
   \<and> fst (fst (register cfg0 (env_zip [''index.js''] 2) ''siteA'' ''Shop'' None
                  (Some ''/srv/app/tmp_site.zip'') True w_siteA))
   \<and> last (spawn_dirs (trace (snd (register cfg0 (env_ok 1) ''siteA'' ''UserApp'' (Some ''print(1)'') None True init_world))))
       = ''/srv/app/hosted_apps/app_19fecf00ef5efe1a40e186b174e3f7d0''
   \<and> last (spawn_dirs (trace (snd (register cfg0 (env_zip [''index.js''] 2) ''siteA'' ''Shop'' None
                  (Some ''/srv/app/tmp_site.zip'') True w_siteA))))
       = ''/srv/app/hosted_apps/app_19fecf00ef5efe1a40e186b174e3f7d0''
   \<and> md5_hexdigest cfg0 ''siteA'' \<noteq> md5_hexdigest cfg0 ''siteB''
   \<and> target_dir cfg0 ''siteA'' \<noteq> target_dir cfg0 ''siteB''"
proof -
  have a: "fst (fst (register cfg0 (env_ok 1) ''siteA'' ''UserApp'' (Some ''print(1)'') None True init_world))"
    by (simp add: eval_defs)
  have b: "fst (fst (register cfg0 (env_zip [''index.js''] 2) ''siteA'' ''Shop'' None
                  (Some ''/srv/app/tmp_site.zip'') True w_siteA))"
    by (simp add: w_siteA_eq) (simp add: eval_defs env_zip_def endswith_def)
  have c: "md5_hexdigest cfg0 ''siteA'' \<noteq> md5_hexdigest cfg0 ''siteB''"
    by (simp add: cfg0_def)
  note t = C9_working_directory [of cfg0 "env_ok 1" "''siteA''" "''UserApp''" "Some ''print(1)''" None True
      init_world "env_zip [''index.js''] 2" "''Shop''" None "Some ''/srv/app/tmp_site.zip''" True w_siteA
      "''siteB''"]
  show ?thesis
    using t a b c unfolding target_dir_siteA by blast
qed

subsection \<open>The entry point of an archive\<close>

lemma find_entry_order_free:
  assumes "set listing' = set listing"
    and "\<forall>f g. f \<in> set listing \<and> g \<in> set listing \<and> recognised f \<and> recognised g \<longrightarrow> f = g"
  shows "find_entry dir rt listing' = find_entry dir rt listing"
proof (cases "filter recognised listing")
  case Nil
  then have "filter recognised listing' = []"
    using assms(1) by (auto simp: filter_empty_conv)
  with Nil show ?thesis
    by (simp add: find_entry_first)
next
  case (Cons f fs)
  then have "f \<in> set (filter recognised listing)"
    by simp
  then have f: "f \<in> set listing \<and> recognised f"
    by simp
  then have "filter recognised listing' \<noteq> []"
    using assms(1) by (auto simp: filter_empty_conv)
  then obtain g gs where g: "filter recognised listing' = g # gs"
    by (cases "filter recognised listing'") auto
  then have "g \<in> set (filter recognised listing')"
    by simp
  then have "g \<in> set listing \<and> recognised g"
    using assms(1) by simp
  with f assms(2) have "g = f" by blast
  with Cons g show ?thesis
    by (simp add: find_entry_first)
qed

text \<open>
  Claim C7, as amended. For an archive payload, staging extracts it into the working
  directory and takes the first name of the directory listing that is one of
  \<^verbatim>\<open>main.py\<close>, \<^verbatim>\<open>index.js\<close>, \<^verbatim>\<open>package.json\<close>; if the listing holds none of them, the
  registration fails with \<^verbatim>\<open>"Could not find entry point"\<close>. The result is independent of
  the order of the listing when the listing holds at most one recognised name.
\<close>

theorem C7_first_listed_entry:
  "(falsy cc \<and> endswith p ''.zip'' \<and> extract_zip env = Inr listing \<longrightarrow>
      stage cfg env dir cc (Some p) w =
        (Continue (case filter recognised listing of
                     [] \<Rightarrow> (None, sys_executable cfg)
                   | f # fs \<Rightarrow> entry_for dir (sys_executable cfg) f),
         emit (ExtractAll p dir) w))
   \<and> ((is_site \<or> bot_init env = None \<and> get_me env \<noteq> None) \<and> makedirs_exc env = None
        \<and> falsy cc \<and> endswith p ''.zip'' \<and> extract_zip env = Inr listing
        \<and> filter recognised listing = [] \<longrightarrow>
        fst (register cfg env token name cc (Some p) is_site w)
          = (False, ''Could not find entry point''))
   \<and> (set listing' = set listing
        \<and> (\<forall>f g. f \<in> set listing \<and> g \<in> set listing \<and> recognised f \<and> recognised g \<longrightarrow> f = g) \<longrightarrow>
        find_entry dir (sys_executable cfg) listing' = find_entry dir (sys_executable cfg) listing)"
  using stage_zip [of cc p env listing cfg dir w]
    register_no_entry [of is_site env cc p listing cfg token name w]
    find_entry_order_free [of listing' listing dir "sys_executable cfg"]
  by (simp add: find_entry_first)

theorem C7_first_listed_entry_witness:
  "stage cfg0 (env_zip [''README.md'', ''index.js'', ''lib''] 1) ''/srv/app/hosted_apps/app_x'' None
       (Some ''/srv/app/tmp_site.zip'') init_world
     = (Continue (Some ''/srv/app/hosted_apps/app_x/index.js'', ''node''),
        emit (ExtractAll ''/srv/app/tmp_site.zip'' ''/srv/app/hosted_apps/app_x'') init_world)
   \<and> fst (register cfg0 (env_zip [''README.md'', ''lib''] 1) ''siteA'' ''UserApp'' None
            (Some ''/srv/app/tmp_site.zip'') True init_world)
     = (False, ''Could not find entry point'')
   \<and> find_entry ''/srv/app/hosted_apps/app_x'' (sys_executable cfg0) [''lib'', ''index.js'', ''README.md'']
     = find_entry ''/srv/app/hosted_apps/app_x'' (sys_executable cfg0) [''README.md'', ''index.js'', ''lib'']"
proof -
  have a: "falsy None \<and> endswith ''/srv/app/tmp_site.zip'' ''.zip''"
    by (simp add: endswith_def)
  have b: "extract_zip (env_zip [''README.md'', ''index.js'', ''lib''] 1) = Inr [''README.md'', ''index.js'', ''lib'']
      \<and> extract_zip (env_zip [''README.md'', ''lib''] 1) = Inr [''README.md'', ''lib'']
      \<and> makedirs_exc (env_zip [''README.md'', ''lib''] 1) = None"
    by (simp add: env_zip_def)
  have c: "filter recognised [''README.md'', ''index.js'', ''lib''] = [''index.js'']
      \<and> filter recognised [''README.md'', ''lib''] = []"
    by (simp add: recognised_def)
  have d: "entry_for ''/srv/app/hosted_apps/app_x'' (sys_executable cfg0) ''index.js''
        = (Some ''/srv/app/hosted_apps/app_x/index.js'', ''node'')"
    by (simp add: entry_for_def path_join_def)
  have e: "set [''lib'', ''index.js'', ''README.md''] = set [''README.md'', ''index.js'', ''lib'']"
    by auto
  have f: "\<forall>f g. f \<in> set [''README.md'', ''index.js'', ''lib''] \<and> g \<in> set [''README.md'', ''index.js'', ''lib'']
        \<and> recognised f \<and> recognised g \<longrightarrow> f = g"
    by (auto simp: recognised_def)
  note t1 = C7_first_listed_entry [of None "''/srv/app/tmp_site.zip''"
      "env_zip [''README.md'', ''index.js'', ''lib''] 1" "[''README.md'', ''index.js'', ''lib'']"
      cfg0 "''/srv/app/hosted_apps/app_x''" init_world True "''siteA''" "''UserApp''"
      "[''lib'', ''index.js'', ''README.md'']"]
  note t2 = C7_first_listed_entry [of None "''/srv/app/tmp_site.zip''"
      "env_zip [''README.md'', ''lib''] 1" "[''README.md'', ''lib'']"
      cfg0 "''/srv/app/hosted_apps/app_x''" init_world True "''siteA''" "''UserApp''" "[]"]
  have 1: "stage cfg0 (env_zip [''README.md'', ''index.js'', ''lib''] 1) ''/srv/app/hosted_apps/app_x'' None
       (Some ''/srv/app/tmp_site.zip'') init_world
     = (Continue (Some ''/srv/app/hosted_apps/app_x/index.js'', ''node''),
        emit (ExtractAll ''/srv/app/tmp_site.zip'' ''/srv/app/hosted_apps/app_x'') init_world)"
    using t1 a b c d by simp
  have 2: "fst (register cfg0 (env_zip [''README.md'', ''lib''] 1) ''siteA'' ''UserApp'' None
            (Some ''/srv/app/tmp_site.zip'') True init_world)
     = (False, ''Could not find entry point'')"
    using t2 a b c by simp
  have 3: "find_entry ''/srv/app/hosted_apps/app_x'' (sys_executable cfg0) [''lib'', ''index.js'', ''README.md'']
     = find_entry ''/srv/app/hosted_apps/app_x'' (sys_executable cfg0) [''README.md'', ''index.js'', ''lib'']"
    using t1 e f by blast
  show ?thesis
    using 1 2 3 by blast
qed

text \<open>
  Claim C7 as stated fails: with \<^verbatim>\<open>main.py\<close> and \<^verbatim>\<open>index.js\<close> both in the archive, the
  entry point follows the order of the directory listing, not a fixed priority.
\<close>

theorem C7_enumeration_order_counterexample:
  "set [''index.js'', ''main.py''] = set [''main.py'', ''index.js'']
   \<and> trace (snd (register cfg0 (env_zip [''index.js'', ''main.py''] 1) ''siteA'' ''UserApp'' None
                 (Some ''/srv/app/tmp_site.zip'') True init_world))
     = [MakeDirs ''hosted_apps'',
        MakeDirs ''/srv/app/hosted_apps/app_19fecf00ef5efe1a40e186b174e3f7d0'',
        ExtractAll ''/srv/app/tmp_site.zip'' ''/srv/app/hosted_apps/app_19fecf00ef5efe1a40e186b174e3f7d0'',
        Spawn [''node'', ''/srv/app/hosted_apps/app_19fecf00ef5efe1a40e186b174e3f7d0/index.js'']
          ''/srv/app/hosted_apps/app_19fecf00ef5efe1a40e186b174e3f7d0'' ''siteA'' (Some 10001) 1]
   \<and> trace (snd (register cfg0 (env_zip [''main.py'', ''index.js''] 1) ''siteA'' ''UserApp'' None
                 (Some ''/srv/app/tmp_site.zip'') True init_world))
     = [MakeDirs ''hosted_apps'',
        MakeDirs ''/srv/app/hosted_apps/app_19fecf00ef5efe1a40e186b174e3f7d0'',
        ExtractAll ''/srv/app/tmp_site.zip'' ''/srv/app/hosted_apps/app_19fecf00ef5efe1a40e186b174e3f7d0'',
        Spawn [''/usr/bin/python3'', ''/srv/app/hosted_apps/app_19fecf00ef5efe1a40e186b174e3f7d0/main.py'']
          ''/srv/app/hosted_apps/app_19fecf00ef5efe1a40e186b174e3f7d0'' ''siteA'' (Some 10001) 1]"
  by (simp add: eval_defs env_zip_def endswith_def insert_commute)

subsection \<open>Ports of live sites\<close>

text \<open>
  Claim C1 on the code. The port of a new site is \<^verbatim>\<open>10000 + len(self._bots) + 1\<close>. After
  registering two sites, unregistering the first and registering a third, the two live
  sites hold the same port.
\<close>

theorem C1_port_reuse:
  "map (\<lambda>(t, b). (t, get_py b ''type'', get_py b ''port''))
       (bots (run cfg0 ops_port_reuse init_world))
     = [(''siteB'', PStr ''site'', PInt 10002), (''siteC'', PStr ''site'', PInt 10002)]"
  by (simp add: ops_port_reuse_def eval_defs)

subsection \<open>Records and the processes they track\<close>

text \<open>
  Claim C6 on the code. Registering an identity that already has a record replaces the
  record without terminating its process: after two registrations of one site the
  registry tracks only the second child, while both were started and neither was ever
  sent \<^verbatim>\<open>terminate\<close> or \<^verbatim>\<open>kill\<close>.
\<close>

theorem C6_redeploy_orphans_child:
  "dict_keys (bots (run cfg0 ops_redeploy init_world)) = [''siteA'']
   \<and> tracked (run cfg0 ops_redeploy init_world) = [PProc 2]
   \<and> spawned (trace (run cfg0 ops_redeploy init_world)) = [1, 2]
   \<and> signalled (trace (run cfg0 ops_redeploy init_world)) = []"
  by (simp add: ops_redeploy_def eval_defs dict_keys_def dict_values_def tracked_def)

subsection \<open>Events fed to a hosted workload\<close>

lemma w_bot_eq:
  "bots w_bot = [(''123456:ABC'', mk_info ''123456:ABC'' ''UserApp'' ''demo_bot'' 1 None False)]"
  by (simp add: w_bot_def eval_defs)

text \<open>
  Claim C2 on the code. The records \<^verbatim>\<open>register\<close> stores have no key
  \<^verbatim>\<open>total_updates\<close>, so for a registered identity \<^verbatim>\<open>process_update\<close> raises
  \<^verbatim>\<open>KeyError\<close> at its first statement: the response is 200 with the body
  \<^verbatim>\<open>{"ok": false, "error": "'total_updates'"}\<close>, and nothing else happens (no counter
  changes, no statistics, no update fed).
\<close>

theorem C2_webhook_registered:
  "dict_get (bots w_bot) ''123456:ABC''
     = Some (mk_info ''123456:ABC'' ''UserApp'' ''demo_bot'' 1 None False)
   \<and> hosted_webhook True upd_message ''123456:ABC'' w_bot
     = (\<lparr>resp_status = 200, resp_headers = [],
         resp_body = Json (UpdFailed ([CHR 0x27] @ ''total_updates'' @ [CHR 0x27]))\<rparr>,
        w_bot)"
  by (simp add: w_bot_eq hosted_webhook_def process_update_def bump_total_updates_def
        upd_message_def mk_info_def)

text \<open>An unknown identity gets 404 and nothing happens.\<close>

lemma hosted_webhook_unknown:
  "dict_get (bots w) token = None \<Longrightarrow> json_body env = Some d \<Longrightarrow>
   hosted_webhook has_db env token w
     = (\<lparr>resp_status = 404, resp_headers = [], resp_body = NoBody\<rparr>, w)"
  by (simp add: hosted_webhook_def process_update_def)

text \<open>
  Every record of a state reached by registering and unregistering was built by
  \<^verbatim>\<open>register\<close>, so what the evaluation above shows holds for every registered identity.
\<close>

lemma set_dict_set: "set (dict_set k v d) \<subseteq> insert (k, v) (set d)"
  by (induction d) (auto split: if_splits)

lemma set_dict_del: "set (dict_del k d) \<subseteq> set d"
  by (induction d) (auto split: if_splits)

lemma dict_get_in_set: "dict_get d k = Some v \<Longrightarrow> (k, v) \<in> set d"
  by (induction d) (auto split: if_splits)

lemma register_bots_cases:
  "bots (snd (register cfg env token name cc cp is_site w)) = bots w
   \<or> (\<exists>u h port. bots (snd (register cfg env token name cc cp is_site w))
         = dict_set token (mk_info token name u h port is_site) (bots w))"
proof (cases "fst (fst (register cfg env token name cc cp is_site w))")
  case True
  from register_success [of cfg env token name cc cp is_site w] True
  obtain u h pre cmd w3 where
    "register cfg env token name cc cp is_site w =
       ((True, u),
        w3\<lparr>bots := dict_set token
                (mk_info token name u h
                   (if is_site then Some (10000 + length (bots w) + 1) else None) is_site)
                (bots w),
           trace := trace w3 @
             [Spawn cmd (target_dir cfg token) token
                (if is_site then Some (10000 + length (bots w) + 1) else None) h]\<rparr>)"
    by auto
  then show ?thesis by auto
next
  case False
  then show ?thesis
    using register_failure_frame [of cfg env token name cc cp is_site w] by simp
qed

lemma unregister_bots:
  "bots (snd (unregister env token w)) = bots w \<or> bots (snd (unregister env token w)) = dict_del token (bots w)"
  by (simp add: unregister_def split: option.splits)

lemma run_snoc: "run cfg (ops @ [x]) w = step cfg (run cfg ops w) x"
  by (simp add: run_def)

lemma reachable_records:
  "(k, b) \<in> set (bots (run cfg ops init_world)) \<Longrightarrow>
   \<exists>name u h port is_site. b = mk_info k name u h port is_site"
proof (induction ops arbitrary: k b rule: rev_induct)
  case Nil
  then show ?case by (simp add: run_def init_world_def)
next
  case (snoc x ops)
  show ?case
  proof (cases x)
    case (Register env token name cc cp is_site)
    have "bots (run cfg (ops @ [x]) init_world) = bots (run cfg ops init_world)
      \<or> (\<exists>u h port. bots (run cfg (ops @ [x]) init_world)
            = dict_set token (mk_info token name u h port is_site) (bots (run cfg ops init_world)))"
      using register_bots_cases [of cfg env token name cc cp is_site "run cfg ops init_world"]
      by (simp add: run_snoc Register)
    then show ?thesis
      using snoc set_dict_set by fastforce
  next
    case (Unregister env token)
    have "set (bots (run cfg (ops @ [x]) init_world)) \<subseteq> set (bots (run cfg ops init_world))"
      using unregister_bots [of env token "run cfg ops init_world"] set_dict_del [of token "bots (run cfg ops init_world)"]
      by (auto simp: run_snoc Unregister)
    then show ?thesis
      using snoc by blast
  qed
qed

lemma webhook_never_feeds:
  assumes "dict_get (bots (run cfg ops init_world)) token \<noteq> None" "json_body env = Some d"
  shows "hosted_webhook has_db env token (run cfg ops init_world)
     = (\<lparr>resp_status = 200, resp_headers = [],
         resp_body = Json (UpdFailed ([CHR 0x27] @ ''total_updates'' @ [CHR 0x27]))\<rparr>,
        run cfg ops init_world)"
proof -
  from assms(1) obtain b where b: "dict_get (bots (run cfg ops init_world)) token = Some b"
    by auto
  then obtain name u h port is_site where "b = mk_info token name u h port is_site"
    using reachable_records dict_get_in_set by meson
  then have "dict_get b ''total_updates'' = None"
    by (simp add: mk_info_def)
  then show ?thesis
    using b assms(2)
    by (simp add: hosted_webhook_def process_update_def bump_total_updates_def)
qed

subsection \<open>Reverse proxy\<close>

lemma find_first:
  "find P xs = Some x \<Longrightarrow> \<exists>pre post. xs = pre @ x # post \<and> P x \<and> (\<forall>y\<in>set pre. \<not> P y)"
proof (induction xs)
  case Nil
  then show ?case by simp
next
  case (Cons a xs)
  show ?case
  proof (cases "P a")
    case True
    with Cons.prems have "x = a" by simp
    with True have "a # xs = [] @ x # xs \<and> P x \<and> (\<forall>y\<in>set []. \<not> P y)" by simp
    then show ?thesis by blast
  next
    case False
    with Cons obtain pre post where "xs = pre @ x # post" "P x" "\<forall>y\<in>set pre. \<not> P y"
      by auto
    with False have "a # xs = (a # pre) @ x # post \<and> P x \<and> (\<forall>y\<in>set (a # pre). \<not> P y)"
      by simp
    then show ?thesis by blast
  qed
qed

lemma site_proxy_no_match:
  "\<not> (\<exists>b\<in>set (dict_values registry). matches (req_token req) b) \<Longrightarrow>
   site_proxy child registry req
     = Inr \<lparr>resp_status = 404, resp_headers = [], resp_body = Text ''Site Not Found''\<rparr>"
proof -
  assume "\<not> (\<exists>b\<in>set (dict_values registry). matches (req_token req) b)"
  then have "find (matches (req_token req)) (dict_values registry) = None"
    by (simp add: find_None_iff)
  then show ?thesis
    by (simp add: site_proxy_def find_target_def)
qed

lemma site_proxy_no_port:
  "find_target registry (req_token req) = Some b \<Longrightarrow> \<not> truthy (get_py b ''port'') \<Longrightarrow>
   site_proxy child registry req
     = Inr \<lparr>resp_status = 404, resp_headers = [], resp_body = Text ''Site Not Found''\<rparr>"
  by (simp add: site_proxy_def)

lemma truthy_port_nonempty: "truthy (get_py b ''port'') \<Longrightarrow> b \<noteq> []"
  by (auto simp: get_py_def)

text \<open>
  Whenever the looked-up record has a port, the handler raises: no request is ever sent
  to a child, whatever the child would answer.
\<close>

lemma site_proxy_name_error:
  "find_target registry (req_token req) = Some b \<Longrightarrow> truthy (get_py b ''port'') \<Longrightarrow>
   site_proxy child registry req = Inl (NameError ''aiohttp'')"
  by (simp add: site_proxy_def client_session_def truthy_port_nonempty)

lemma str_nat_10001: "str_nat 10001 = ''10001''"
  by (simp add: str_nat.simps digit_def)

lemmas proxy_eval = find_target_def dict_values_def matches_def mk_info_def get_py_def
  target_url_def req_ping_def child_at_def str_int_def str_nat_10001
  site_proxy_def client_session_def is_site_info_def

text \<open>
  Claim C3 on the code. The site \<^verbatim>\<open>siteA\<close> is live on port 10001 and its child answers
  \<^verbatim>\<open>/ping\<close> with status 201 and body \<^verbatim>\<open>ok\<close>. The request \<^verbatim>\<open>/site/siteA/ping\<close> finds the
  record, and the handler raises \<^verbatim>\<open>NameError\<close> at line 1620 instead of relaying that
  answer.
\<close>

theorem C3_proxy_name_error:
  "find_target (bots w_siteA) (req_token (req_ping ''siteA''))
     = Some (mk_info ''siteA'' ''UserApp'' ''website'' 1 (Some 10001) True)
   \<and> is_site_info (mk_info ''siteA'' ''UserApp'' ''website'' 1 (Some 10001) True)
   \<and> get_py (mk_info ''siteA'' ''UserApp'' ''website'' 1 (Some 10001) True) ''port'' = PInt 10001
   \<and> child_at 10001 (req_method (req_ping ''siteA''))
        (target_url (mk_info ''siteA'' ''UserApp'' ''website'' 1 (Some 10001) True) (req_ping ''siteA''))
        (dict_del ''Host'' (req_headers (req_ping ''siteA''))) (req_body (req_ping ''siteA''))
       = Inr (201, [], ''ok'')
   \<and> site_proxy (child_at 10001) (bots w_siteA) (req_ping ''siteA'') = Inl (NameError ''aiohttp'')"
  by (simp add: w_siteA_bots proxy_eval)

subsection \<open>The code-upload flow\<close>





















end
